theory Spec2Isabelle
  imports Main
begin

section \<open>Notebook documents\<close>

text \<open>
  The repository consists of two Jupyter notebooks, \<^verbatim>\<open>distributing_data.ipynb\<close> and
  \<^verbatim>\<open>ingesting_data.ipynb\<close>, stored in the nbformat 4 JSON layout. A notebook is a
  list of cells; a cell has a \<^verbatim>\<open>cell_type\<close> and a \<^verbatim>\<open>source\<close>, a list of text lines.
  The format knows three cell types. The per-cell \<^verbatim>\<open>metadata\<close> objects are all empty,
  and every code cell has \<^verbatim>\<open>execution_count\<close> null and no \<^verbatim>\<open>outputs\<close>, so these
  fields carry no data and are left out of the record.

  Source lines are kept verbatim, without the line terminator that ends every line of a
  cell but the last.
\<close>

datatype cell_type = Markdown | Code | Raw

record cell =
  cell_type :: cell_type
  source :: "string list"

record notebook =
  cells :: "cell list"
  kernelspec :: "(string \<times> string) list"
  codemirror_mode :: "(string \<times> string) list"
  language_info :: "(string \<times> string) list"
  nbformat :: nat
  nbformat_minor :: nat

definition markdown_cell :: "string list \<Rightarrow> cell" where
  "markdown_cell src = \<lparr>cell_type = Markdown, source = src\<rparr>"

definition code_cell :: "string list \<Rightarrow> cell" where
  "code_cell src = \<lparr>cell_type = Code, source = src\<rparr>"

subsection \<open>The two notebooks\<close>

definition distributing_data :: notebook where
  \<open>distributing_data = \<lparr>cells = [
   markdown_cell
     [''## Distributing Data with Intake'',
      '''',
      ''Intake philosophy contains a clear separation of concerns between the provider of data and the consumer of data. This tutorial concerns the former: someone who cares about where a particular dataset it stored and the right format and options for best retrieval. It is their task to make these choices, and then expose the data to end-users (such as data scientists), so that they have a clear path to finding and accessing their data. There is no need to train users in how to investigate or load a particular dataset, those details are encoded in the catalog.'',
      '''',
      ''Intake catalogs act as a single source of truth about the data in question. The principal job of a data scientist, while interacting with Intake, is to find the best representation of data-sets (as they would have to do in any case) and to author catalogs as a means of both codifying the data-sets in versionable files and exposing them to users with a clear contract.'',
      '''',
      ''In this tutorial we will show the work-flow for writing and distributing a catalog, and thereby providing data to your users.''],
   code_cell
     [''import intake''],
   markdown_cell
     [''## 1. Reading the data'',
      '''',
      ''Intake has a plugin architecture that makes it straightforward to distribute lots of different types of data. This project contains some csv files in the data directory. These files contain modelled precipitation under several different emissions scenarios.''],
   code_cell
     [''import os'',
      ''os.listdir(\'data\')''],
   markdown_cell
     [''<div class="alert alert-info" role="alert">'',
      ''    <b>NOTE:</b> We are using local data files in this example, but you can use Intake to load data from many different storage options including: S3, GCS, azure, HDFS, HTTP servers, ftp, ssh...'',
      ''</div>''],
   markdown_cell
     [''Normally we\'d read these files using pandas and doing a little data-munging on the read. ''],
   code_cell
     [''import pandas as pd'',
      '''',
      ''df = pd.read_csv(\'datasets/SRLCC_b1_Precip_PCM-NCAR.csv\', '',
      ''                 skiprows=3,'',
      ''                 names=[\'time\', \'precip\'],'',
      ''                 parse_dates=[\'time\'])'',
      ''df.head()''],
   markdown_cell
     [''Intake lets you capture that read command in a human and machine readable way, so that the people consuming the data don\'t need to know the implementation details. First we\'ll write verify that our commands work using `intake.open_csv`.''],
   code_cell
     [''data_source = intake.open_csv('',
      ''    \'datasets/SRLCC_b1_Precip_PCM-NCAR.csv\', '',
      ''    csv_kwargs=dict(skiprows=3,'',
      ''                    names=[\'time\', \'precip\'],'',
      ''                    parse_dates=[\'time\']))'',
      ''data_source''],
   markdown_cell
     [''We just created our first data source. This can be used to read the data into a pandas dataframe.''],
   code_cell
     [''df = data_source.read()'',
      ''df.head()''],
   markdown_cell
     [''Or we can choose to load the data lazily using dask.''],
   markdown_cell
     [''## 2. Write the catalog'',
      '''',
      ''Now that we\'ve got a data source, we write a catalog file to capture the arguments that we used to create it. We can use `.yaml()` to retrieve those arguments. And write them to a new file called `\'my_catalog.yml`.''],
   code_cell
     [''with open(\'my_catalog.yml\', \'w\') as f:'',
      ''    f.write(data_source.yaml())''],
   markdown_cell
     [''Now let\'s take a look at what\'s in that new catalog file.''],
   code_cell
     [''with open(\'my_catalog.yml\', \'r\') as f:'',
      ''    print(f.read())''],
   markdown_cell
     [''<div class="alert alert-info" role="alert">'',
      ''    <b>NOTE:</b> In this example we use csv files. In practice Intake supports a wide array of data formats including: databases, images, grids, and streaming data. You can find a list of all the various supported formats in the <a href=https://intake.readthedocs.io/en/latest/plugin-directory.html>Intake Docs</a>.'',
      ''</div>''],
   markdown_cell
     [''## 3. Read the catalog'',
      '''',
      ''Now you can use your new catalog to read in the data. Notice how you no longer need to know anything about the original file format or particularities of how the data should be read.''],
   code_cell
     [''cat = intake.open_catalog(\'my_catalog.yml\')'',
      ''list(cat)''],
   markdown_cell
     [''In the above cell, we open the catalog and see what data sources are available in it. In our catalog we\'ll only have one, but in practice a catalog can have many data soures and can even contain other catalogs. To learn more about reading from catalogs that other people have created, see [the ingesting data notebook](ingesting_data.ipynb) in this project. ''],
   code_cell
     [''df = cat.csv.read()'',
      ''df.head()''],
   markdown_cell
     [''## Optional: Edit the catalog'',
      '''',
      ''This step is optional, but now that you have the basics of the catalog in place, you can open up the yaml file and do some editing. Feel free to taks a look at the catalog.yml that is included with this project to get ideas. Here are some things you might want to try out:'',
      '''',
      ''1. Change the name of the data source from csv to something more descriptive'',
      ''2. Add a description. '',
      ''3. Add `{{ CATALOG_DIR }}` to the beginning of the `urlpath` to ensure that the data will be accessible from any location in the file hierarchy.'',
      ''4. In the `urlpath` Replace `b1` with `{emissions}` and `PCM-NCAR` with `{model}`. This is a little tricky to explain, but essentially intake will look at all the files that match the pattern of the filename and add columns to the dataframe containing the information found within the filenames. To learn more [see this blog post](https://www.anaconda.com/intake-parsing-data-from-filenames-and-paths/).'',
      '''',
      ''After you are done editing, repeat step 3 to make sure that you are getting your desired output. ''],
   markdown_cell
     [''## Distribute the catalog'',
      ''Once you are happy with your catalog, you have several options of how to share it:'',
      '''',
      ''### 1. Remote catalog'',
      ''The easiest option is often to upload the catalog to a central location where other people can access it. Often people upload to github or a shared network drive or institutional storage (gitlab, S3'' @ [CHR 0xE2, CHR 0x80, CHR 0xA6] @ ''). This is best suited for cases where the catalog points to remote data sources which might themselves be on different servers or on the cloud.'',
      '''',
      ''### 2. Intake server'',
      ''If your data are local, or update frequently it might make sense to serve it using the `intake-server` command. Since this notebook is intended to run on Anaconda Enterprise there are a couple more steps that are needed to make sure that the arguments all make it through properly to the `intake-server` command. You\'ll find that there is a main.py script in this project which takes care of all these details.'',
      '''',
      ''To test it out, click the deploy button and choose the `my_server` command - make sure to make your deployment public. Once that is deployed, you can use the [ingesting data notebook](ingesting_data.ipynb) to read from your server. '',
      '''',
      ''### 3. Conda package'',
      ''Another way to distribute your data is by creating a conda package which contains the data and specifies any dependencies. The basics of this package are laid out in the conda.recipe directory you can read the [intake documentation](https://intake.readthedocs.io/en/latest/data-packages.html) to learn more about the process of creating data packages.'',
      '''',
      ''You can run the cell below to install `conda-build` in your environment.''],
   code_cell
     [''!conda install conda-build --yes --quiet''],
   markdown_cell
     [''### Build the package'',
      '''',
      ''Now you are ready to build the package:''],
   code_cell
     [''!conda build conda.recipe --output-folder built --quiet''],
   markdown_cell
     [''### Uploading the package'',
      '''',
      ''After that finishes, you should have a new directory in this project called `built`. In there you\'ll find your new archived package file. You can upload that anaconda.org using the suggested command (something like `anaconda upload built/noarch/data-model-precip-0.1.0-0.tar.bz2`), or to your platform package server.'',
      '''',
      ''To learn more about Intake, see [ingesting_data.ipynb](ingesting_data.ipynb) or visit the [Intake docs](https://intake.readthedocs.io).'']],
   kernelspec = [(''display_name'', ''Python 3 (ipykernel) [default]''), (''language'', ''python''), (''name'', ''anaconda-project-default-python3'')],
   codemirror_mode = [(''name'', ''ipython''), (''version'', ''3'')],
   language_info = [(''file_extension'', ''.py''), (''mimetype'', ''text/x-python''), (''name'', ''python''), (''nbconvert_exporter'', ''python''), (''pygments_lexer'', ''ipython3''), (''version'', ''3.11.9'')],
   nbformat = 4,
   nbformat_minor = 4\<rparr>\<close>

definition ingesting_data :: notebook where
  \<open>ingesting_data = \<lparr>cells = [
   markdown_cell
     [''## Ingesting Data with Intake'',
      '''',
      ''Intake provides an easy way to find your data, locally, in a cloud service, or on an Intake server. Allowing users to load analysis-ready data without worrying about the specifics of the loading package, format and storage backend.''],
   code_cell
     [''import intake'',
      ''intake.output_notebook()''],
   markdown_cell
     [''## Catalogs'',
      '''',
      ''The common starting point for finding and inspecting data-sets is with a catalog, which is a collection of entries, each of which corresponds to a specific data-set. The entries have names, descriptions and metadata, to allow for searching and filtering of the entries, to find the specific data which solves a particular problem.''],
   code_cell
     [''local_cat = intake.open_catalog(\'catalog.yml\')'',
      ''list(local_cat)''],
   markdown_cell
     [''In addition to loading catalogs that are stored locally, you can use intake to explore remote catalogs. For instance we can take a look at the intake catalog of downloads from anaconda.org.''],
   code_cell
     [''url = \'https://raw.githubusercontent.com/ContinuumIO/anaconda-package-data/master/catalog/anaconda_package_data.yaml'' @ [CHR 0x27],
      ''remote_cat = intake.open_catalog(url)'',
      ''list(remote_cat)''],
   markdown_cell
     [''If you have access to an [intake-server](distributing_data.ipynb), then you will also be able to access catalogs at the server url. Replace MY_SERVER_URL in the cell below with the url at which you have deployed your server, but replace "https" with "intake".''],
   markdown_cell
     [''<div class="alert alert-warning" role="alert">'',
      ''    '',
      ''For instance if you deployed a server at `https://server.aip.anaconda.com` then you can will use `intake://server.aip.anaconda.com`. '',
      '''',
      ''</div>''],
   code_cell
     [''# replace this value with your own'',
      ''MY_SERVER_URL = \'intake://server.aip.anaconda.com\'  '',
      '''',
      ''server_cat = intake.open_catalog(MY_SERVER_URL, http_args={\'ssl\': True})'',
      ''list(server_cat)''],
   markdown_cell
     [''If you have installed a data package into your conda env (`conda install -c intake us_crime` for instance), this will be available at `intake.cat`. Otherwise the following call will return an empty list.''],
   code_cell
     [''list(intake.cat)''],
   markdown_cell
     [''<div class="alert alert-info" role="alert">'',
      ''    <b>NOTE:</b> To learn how to create your own data package, see <a href=distributing_data.ipynb>distributing_data.ipynb</a>.'',
      ''</div>''],
   markdown_cell
     [''## Data Sources'',
      '''',
      ''No matter how you load your catalog, you should be able to use it to access the data sources within. You can think of the data sources as recipes for how to get the data. For information about how to create data sources see [distributing_data.ipynb](distributing_data.ipynb). These data sources have pointers, information on how to load it, and additional metadata. For instance, often data sources will have a description:''],
   code_cell
     [''source = local_cat.southern_rockies'',
      ''print(source.description)''],
   markdown_cell
     [''Although we have read some metadata, at this point if the data are remote, they haven\'t been downloaded yet. With the next step we will read those data into a `pandas.DataFrame`.''],
   code_cell
     [''df = source.read()'',
      ''df.head()''],
   markdown_cell
     [''This is just a regular pandas dataframe which we can use for all regular pandas operations.''],
   code_cell
     [''mean_df = df.groupby([\'emissions\', \'model\'])[\'precip\'].mean()'',
      ''mean_df''],
   code_cell
     [''import hvplot.pandas'',
      '''',
      ''mean_df.hvplot.barh()''],
   markdown_cell
     [''If our data are large, we might not want to read them all straight away. In that case, we can use the `to_dask` method to read the metadata and set up tasks to be performed on our larger dataset. ''],
   markdown_cell
     [''## Plotting the data'',
      '''',
      ''Catalogs can contain definitions of plots which are available all the time for the data. You can see a list of these plots:''],
   code_cell
     [''source.plots''],
   code_cell
     [''source.hvplot.violin_example()''],
   markdown_cell
     [''You can also create custom plots using `.hvplot`''],
   code_cell
     [''source.hvplot.line(x=\'time\', y=\'precip\', groupby=[\'emissions\', \'model\'])''],
   markdown_cell
     [''## Graphical interface'',
      '''',
      ''You can also explore the catalog using the GUI. Since the GUI depends on [Panel](https://panel.pyviz.org), you can use it in the notebook, or deploy an instance of the gui for `catalog.yml` by clicking the "Deploy" button and choosing the command: `gui`.''],
   code_cell
     [''local_cat.gui''],
   markdown_cell
     [''To learn more about Intake, see [distributing_data.ipynb](distributing_data.ipynb) or visit the [Intake docs](https://intake.readthedocs.io).'']],
   kernelspec = [(''display_name'', ''Python 3 (ipykernel) [default]''), (''language'', ''python''), (''name'', ''anaconda-project-default-python3'')],
   codemirror_mode = [(''name'', ''ipython''), (''version'', ''3'')],
   language_info = [(''file_extension'', ''.py''), (''mimetype'', ''text/x-python''), (''name'', ''python''), (''nbconvert_exporter'', ''python''), (''pygments_lexer'', ''ipython3''), (''version'', ''3.11.9'')],
   nbformat = 4,
   nbformat_minor = 4\<rparr>\<close>

section \<open>Size of the notebook files\<close>




definition code_sources :: "notebook \<Rightarrow> string list list" where
  "code_sources nb = map source (filter (\<lambda>c. cell_type c = Code) (cells nb))"


section \<open>Shell escapes\<close>

text \<open>
  IPython hands a line to the system shell when it is written with an exclamation mark
  (\<^verbatim>\<open>!cmd\<close>, also \<^verbatim>\<open>x = !cmd\<close>); a line or cell magic starts with a percent sign.
  A source line that has either is counted as an escape from Python.
\<close>

definition lstrip :: "string \<Rightarrow> string" where
  "lstrip = dropWhile (\<lambda>c. c = CHR '' '')"

definition is_escape_line :: "string \<Rightarrow> bool" where
  "is_escape_line l = (CHR ''!'' \<in> set l \<or> take 1 (lstrip l) = ''%'')"

definition escaping_cells :: "notebook \<Rightarrow> string list list" where
  "escaping_cells nb = filter (list_ex is_escape_line) (code_sources nb)"

section \<open>The code cells as Python syntax trees\<close>

text \<open>
  The statements of the code cells, in the vocabulary of Python's \<^verbatim>\<open>ast\<close> module.
  The statement type has the constructors the notebooks use, the IPython shell escape,
  and the compound statements that would hold authored logic: function and class
  definitions, loops, conditionals and \<^verbatim>\<open>try\<close> with its handlers.
\<close>

datatype const = StrC string | NumC nat | TrueC

datatype expr =
    Name string
  | Constant const
  | Attribute expr string
  | Call expr "expr list" "keyword list"
  | ListE "expr list"
  | DictE "expr list" "expr list"
  | Subscript expr expr
and keyword = Keyword string expr

datatype stmt =
    Import string "string option"
  | Assign string expr
  | Expr expr
  | With expr "string option" "stmt list"
  | ShellEscape string
  | FunctionDef string "string list" "stmt list"
  | ClassDef string "stmt list"
  | For expr expr "stmt list"
  | While expr "stmt list"
  | IfStmt expr "stmt list" "stmt list"
  | Try "stmt list" "stmt list"

datatype module = Module "stmt list"

fun body :: "module \<Rightarrow> stmt list" where
  "body (Module ss) = ss"

abbreviation str :: "string \<Rightarrow> expr" where
  "str s \<equiv> Constant (StrC s)"

abbreviation invoke :: "expr \<Rightarrow> string \<Rightarrow> expr list \<Rightarrow> keyword list \<Rightarrow> expr" where
  "invoke obj name args kws \<equiv> Call (Attribute obj name) args kws"

definition distributing_data_code :: "module list" where
  "distributing_data_code = [
     Module [Import ''intake'' None],
     Module [Import ''os'' None,
             Expr (invoke (Name ''os'') ''listdir'' [str ''data''] [])],
     Module [Import ''pandas'' (Some ''pd''),
             Assign ''df''
               (invoke (Name ''pd'') ''read_csv''
                  [str ''datasets/SRLCC_b1_Precip_PCM-NCAR.csv'']
                  [Keyword ''skiprows'' (Constant (NumC 3)),
                   Keyword ''names'' (ListE [str ''time'', str ''precip'']),
                   Keyword ''parse_dates'' (ListE [str ''time''])]),
             Expr (invoke (Name ''df'') ''head'' [] [])],
     Module [Assign ''data_source''
               (invoke (Name ''intake'') ''open_csv''
                  [str ''datasets/SRLCC_b1_Precip_PCM-NCAR.csv'']
                  [Keyword ''csv_kwargs''
                     (Call (Name ''dict'') []
                        [Keyword ''skiprows'' (Constant (NumC 3)),
                         Keyword ''names'' (ListE [str ''time'', str ''precip'']),
                         Keyword ''parse_dates'' (ListE [str ''time''])])]),
             Expr (Name ''data_source'')],
     Module [Assign ''df'' (invoke (Name ''data_source'') ''read'' [] []),
             Expr (invoke (Name ''df'') ''head'' [] [])],
     Module [With (Call (Name ''open'') [str ''my_catalog.yml'', str ''w''] []) (Some ''f'')
               [Expr (invoke (Name ''f'') ''write''
                        [invoke (Name ''data_source'') ''yaml'' [] []] [])]],
     Module [With (Call (Name ''open'') [str ''my_catalog.yml'', str ''r''] []) (Some ''f'')
               [Expr (Call (Name ''print'') [invoke (Name ''f'') ''read'' [] []] [])]],
     Module [Assign ''cat'' (invoke (Name ''intake'') ''open_catalog'' [str ''my_catalog.yml''] []),
             Expr (Call (Name ''list'') [Name ''cat''] [])],
     Module [Assign ''df'' (invoke (Attribute (Name ''cat'') ''csv'') ''read'' [] []),
             Expr (invoke (Name ''df'') ''head'' [] [])],
     Module [ShellEscape ''conda install conda-build --yes --quiet''],
     Module [ShellEscape ''conda build conda.recipe --output-folder built --quiet'']]"

definition ingesting_data_code :: "module list" where
  "ingesting_data_code = [
     Module [Import ''intake'' None,
             Expr (invoke (Name ''intake'') ''output_notebook'' [] [])],
     Module [Assign ''local_cat'' (invoke (Name ''intake'') ''open_catalog'' [str ''catalog.yml''] []),
             Expr (Call (Name ''list'') [Name ''local_cat''] [])],
     Module [Assign ''url''
               (str ''https://raw.githubusercontent.com/ContinuumIO/anaconda-package-data/master/catalog/anaconda_package_data.yaml''),
             Assign ''remote_cat'' (invoke (Name ''intake'') ''open_catalog'' [Name ''url''] []),
             Expr (Call (Name ''list'') [Name ''remote_cat''] [])],
     Module [Assign ''MY_SERVER_URL'' (str ''intake://server.aip.anaconda.com''),
             Assign ''server_cat''
               (invoke (Name ''intake'') ''open_catalog'' [Name ''MY_SERVER_URL'']
                  [Keyword ''http_args'' (DictE [str ''ssl''] [Constant TrueC])]),
             Expr (Call (Name ''list'') [Name ''server_cat''] [])],
     Module [Expr (Call (Name ''list'') [Attribute (Name ''intake'') ''cat''] [])],
     Module [Assign ''source'' (Attribute (Name ''local_cat'') ''southern_rockies''),
             Expr (Call (Name ''print'') [Attribute (Name ''source'') ''description''] [])],
     Module [Assign ''df'' (invoke (Name ''source'') ''read'' [] []),
             Expr (invoke (Name ''df'') ''head'' [] [])],
     Module [Assign ''mean_df''
               (invoke
                  (Subscript
                     (invoke (Name ''df'') ''groupby'' [ListE [str ''emissions'', str ''model'']] [])
                     (str ''precip''))
                  ''mean'' [] []),
             Expr (Name ''mean_df'')],
     Module [Import ''hvplot.pandas'' None,
             Expr (invoke (Attribute (Name ''mean_df'') ''hvplot'') ''barh'' [] [])],
     Module [Expr (Attribute (Name ''source'') ''plots'')],
     Module [Expr (invoke (Attribute (Name ''source'') ''hvplot'') ''violin_example'' [] [])],
     Module [Expr (invoke (Attribute (Name ''source'') ''hvplot'') ''line'' []
                     [Keyword ''x'' (str ''time''), Keyword ''y'' (str ''precip''),
                      Keyword ''groupby'' (ListE [str ''emissions'', str ''model''])])],
     Module [Expr (Attribute (Name ''local_cat'') ''gui'')]]"

subsection \<open>Printing the trees back\<close>

text \<open>
  Printing a tree gives the text of the statement without any blank: the source of a code
  cell, with its comment lines and blanks removed, is compared with it. Every string
  literal of the notebooks is written with single quotes.
\<close>

fun show_nat :: "nat \<Rightarrow> string" where
  "show_nat n =
     (if n < 10 then [char_of (48 + n)] else show_nat (n div 10) @ [char_of (48 + n mod 10)])"

fun show_const :: "const \<Rightarrow> string" where
  "show_const (StrC s) = [CHR 0x27] @ s @ [CHR 0x27]"
| "show_const (NumC n) = show_nat n"
| "show_const TrueC = ''True''"

fun commas :: "string list \<Rightarrow> string" where
  "commas [] = []"
| "commas [x] = x"
| "commas (x # y # ys) = x @ '','' @ commas (y # ys)"

fun show_expr :: "expr \<Rightarrow> string"
and show_keyword :: "keyword \<Rightarrow> string" where
  "show_expr (Name x) = x"
| "show_expr (Constant c) = show_const c"
| "show_expr (Attribute e a) = show_expr e @ ''.'' @ a"
| "show_expr (Call f args kws) =
     show_expr f @ ''('' @ commas (map show_expr args @ map show_keyword kws) @ '')''"
| "show_expr (ListE es) = ''['' @ commas (map show_expr es) @ '']''"
| "show_expr (DictE ks vs) =
     ''{'' @ commas (map (\<lambda>(k, v). k @ '':'' @ v) (zip (map show_expr ks) (map show_expr vs))) @ ''}''"
| "show_expr (Subscript e i) = show_expr e @ ''['' @ show_expr i @ '']''"
| "show_keyword (Keyword k v) = k @ ''='' @ show_expr v"

fun show_stmt :: "stmt \<Rightarrow> string" where
  "show_stmt (Import m None) = ''import'' @ m"
| "show_stmt (Import m (Some a)) = ''import'' @ m @ ''as'' @ a"
| "show_stmt (Assign x e) = x @ ''='' @ show_expr e"
| "show_stmt (Expr e) = show_expr e"
| "show_stmt (With e None ss) = ''with'' @ show_expr e @ '':'' @ concat (map show_stmt ss)"
| "show_stmt (With e (Some x) ss) =
     ''with'' @ show_expr e @ ''as'' @ x @ '':'' @ concat (map show_stmt ss)"
| "show_stmt (ShellEscape c) = ''!'' @ filter (\<lambda>c. c \<noteq> CHR '' '') c"
| "show_stmt (FunctionDef f xs ss) =
     ''def'' @ f @ ''('' @ commas xs @ ''):'' @ concat (map show_stmt ss)"
| "show_stmt (ClassDef c ss) = ''class'' @ c @ '':'' @ concat (map show_stmt ss)"
| "show_stmt (For x e ss) =
     ''for'' @ show_expr x @ ''in'' @ show_expr e @ '':'' @ concat (map show_stmt ss)"
| "show_stmt (While e ss) = ''while'' @ show_expr e @ '':'' @ concat (map show_stmt ss)"
| "show_stmt (IfStmt e ss ts) =
     ''if'' @ show_expr e @ '':'' @ concat (map show_stmt ss)
       @ (if ts = [] then [] else ''else:'' @ concat (map show_stmt ts))"
| "show_stmt (Try ss hs) =
     ''try:'' @ concat (map show_stmt ss) @ ''except:'' @ concat (map show_stmt hs)"

definition show_module :: "module \<Rightarrow> string" where
  "show_module m = concat (map show_stmt (body m))"

definition is_comment :: "string \<Rightarrow> bool" where
  "is_comment l = (take 1 (lstrip l) = ''#'')"

definition squash :: "string list \<Rightarrow> string" where
  "squash ls = filter (\<lambda>c. c \<noteq> CHR '' '') (concat (filter (\<lambda>l. \<not> is_comment l) ls))"

subsection \<open>Kinds of statement\<close>

text \<open>
  \<open>authored_logic\<close> holds of a statement that defines a function or a class, loops,
  branches or handles an exception, at the top of a cell or inside a \<^verbatim>\<open>with\<close> block.
\<close>

fun authored_logic :: "stmt \<Rightarrow> bool" where
  "authored_logic (FunctionDef f xs ss) = True"
| "authored_logic (ClassDef c ss) = True"
| "authored_logic (For x e ss) = True"
| "authored_logic (While e ss) = True"
| "authored_logic (IfStmt e ss ts) = True"
| "authored_logic (Try ss hs) = True"
| "authored_logic (With e x ss) = list_ex authored_logic ss"
| "authored_logic (Import m a) = False"
| "authored_logic (Assign x e) = False"
| "authored_logic (Expr e) = False"
| "authored_logic (ShellEscape c) = False"

fun is_call :: "expr \<Rightarrow> bool" where
  "is_call (Call f args kws) = True"
| "is_call e = False"

fun is_name :: "expr \<Rightarrow> bool" where
  "is_name (Name x) = True"
| "is_name e = False"

fun is_attribute :: "expr \<Rightarrow> bool" where
  "is_attribute (Attribute e a) = True"
| "is_attribute e = False"

fun calls_open :: "expr \<Rightarrow> bool" where
  "calls_open (Call (Name f) args kws) = (f = ''open'')"
| "calls_open e = False"

fun import_assign_or_call :: "stmt \<Rightarrow> bool" where
  "import_assign_or_call (Import m a) = True"
| "import_assign_or_call (Assign x e) = True"
| "import_assign_or_call (Expr e) = is_call e"
| "import_assign_or_call s = False"

fun is_call_stmt :: "stmt \<Rightarrow> bool" where
  "is_call_stmt (Expr e) = is_call e"
| "is_call_stmt s = False"

text \<open>
  The shapes that do occur: an import, an assignment, an expression statement that is a
  call, a bare name or an attribute, a block \<^verbatim>\<open>with open(...) as f:\<close> holding only
  calls, and a shell escape.
\<close>

fun notebook_stmt :: "stmt \<Rightarrow> bool" where
  "notebook_stmt (Import m a) = True"
| "notebook_stmt (Assign x e) = True"
| "notebook_stmt (Expr e) = (is_call e \<or> is_name e \<or> is_attribute e)"
| "notebook_stmt (With e x ss) = (calls_open e \<and> x = Some ''f'' \<and> list_all is_call_stmt ss)"
| "notebook_stmt (ShellEscape c) = True"
| "notebook_stmt s = False"

definition notebook_modules :: "module list" where
  "notebook_modules = distributing_data_code @ ingesting_data_code"

definition statements :: "module list \<Rightarrow> stmt list" where
  "statements ms = concat (map body ms)"

definition notebook_statements :: "stmt list" where
  "notebook_statements = statements distributing_data_code @ statements ingesting_data_code"

subsection \<open>Where an error goes\<close>

text \<open>
  One run of a cell, as far as errors are concerned. The environment of the run says
  which evaluation raises (and what), which import fails, which context manager's
  \<^verbatim>\<open>__exit__\<close> returns true, which conditions hold and how often a loop body runs.
  Python evaluates the callee, then the positional arguments from left to right, then
  the keyword arguments, then makes the call; a dictionary display evaluates each key
  before its value. The first error ends the evaluation.
\<close>

record env =
  raises :: "expr \<Rightarrow> string option"
  import_raises :: "string \<Rightarrow> string option"
  exit_swallows :: "expr \<Rightarrow> bool"
  truthy :: "expr \<Rightarrow> bool"
  iterations :: "expr \<Rightarrow> nat"

datatype outcome = Completed | Raised string

fun outcome_of :: "string option \<Rightarrow> outcome" where
  "outcome_of None = Completed"
| "outcome_of (Some e) = Raised e"

fun then_raise :: "string option \<Rightarrow> string option \<Rightarrow> string option" where
  "then_raise (Some e) r = Some e"
| "then_raise None r = r"

fun first_of :: "string option list \<Rightarrow> string option" where
  "first_of [] = None"
| "first_of (r # rs) = then_raise r (first_of rs)"

fun interleave :: "'a list \<Rightarrow> 'a list \<Rightarrow> 'a list" where
  "interleave (k # ks) (v # vs) = k # v # interleave ks vs"
| "interleave [] vs = []"
| "interleave (k # ks) [] = []"

fun first_raise :: "env \<Rightarrow> expr \<Rightarrow> string option"
and first_raise_kw :: "env \<Rightarrow> keyword \<Rightarrow> string option" where
  "first_raise env (Name x) = raises env (Name x)"
| "first_raise env (Constant c) = None"
| "first_raise env (Attribute e a) =
     then_raise (first_raise env e) (raises env (Attribute e a))"
| "first_raise env (Call f args kws) =
     then_raise (first_raise env f)
       (then_raise (first_of (map (first_raise env) args))
          (then_raise (first_of (map (first_raise_kw env) kws))
             (raises env (Call f args kws))))"
| "first_raise env (ListE es) = first_of (map (first_raise env) es)"
| "first_raise env (DictE ks vs) =
     first_of (interleave (map (first_raise env) ks) (map (first_raise env) vs))"
| "first_raise env (Subscript e i) =
     then_raise (first_raise env e)
       (then_raise (first_raise env i) (raises env (Subscript e i)))"
| "first_raise_kw env (Keyword k v) = first_raise env v"

text \<open>
  When the body of a \<^verbatim>\<open>with\<close> block raises, the manager's \<^verbatim>\<open>__exit__\<close> runs and
  the error is dropped when it returns true. The file object that the builtin
  \<^verbatim>\<open>open\<close> returns closes the file and returns nothing, so it never drops the error;
  for any other manager the environment decides.
\<close>

fun swallows :: "env \<Rightarrow> expr \<Rightarrow> bool" where
  "swallows env (Call (Name f) args kws) =
     (if f = ''open'' then False else exit_swallows env (Call (Name f) args kws))"
| "swallows env e = exit_swallows env e"

text \<open>
  \<open>exec\<close> is what leaves a statement: a \<^verbatim>\<open>try\<close> hands an error of its body to its
  handlers, a \<^verbatim>\<open>with\<close> block asks its manager. A function definition does not run
  its body, a class definition does. A shell escape that fails prints the failure and
  raises nothing in Python.
\<close>

fun exec :: "env \<Rightarrow> stmt \<Rightarrow> outcome"
and exec_block :: "env \<Rightarrow> stmt list \<Rightarrow> outcome" where
  "exec env (Import m a) = outcome_of (import_raises env m)"
| "exec env (Assign x e) = outcome_of (first_raise env e)"
| "exec env (Expr e) = outcome_of (first_raise env e)"
| "exec env (With e x ss) =
     (case first_raise env e of
        Some err \<Rightarrow> Raised err
      | None \<Rightarrow>
         (case exec_block env ss of
            Raised err \<Rightarrow> if swallows env e then Completed else Raised err
          | Completed \<Rightarrow> Completed))"
| "exec env (ShellEscape c) = Completed"
| "exec env (FunctionDef f xs ss) = Completed"
| "exec env (ClassDef c ss) = exec_block env ss"
| "exec env (For x e ss) =
     (case first_raise env e of
        Some err \<Rightarrow> Raised err
      | None \<Rightarrow> if iterations env e = 0 then Completed else exec_block env ss)"
| "exec env (While e ss) =
     (case first_raise env e of
        Some err \<Rightarrow> Raised err
      | None \<Rightarrow> if iterations env e = 0 then Completed else exec_block env ss)"
| "exec env (IfStmt e ss ts) =
     (case first_raise env e of
        Some err \<Rightarrow> Raised err
      | None \<Rightarrow> if truthy env e then exec_block env ss else exec_block env ts)"
| "exec env (Try ss hs) =
     (case exec_block env ss of
        Raised err \<Rightarrow> exec_block env hs
      | Completed \<Rightarrow> Completed)"
| "exec_block env [] = Completed"
| "exec_block env (s # ss) =
     (case exec env s of
        Raised err \<Rightarrow> Raised err
      | Completed \<Rightarrow> exec_block env ss)"

text \<open>
  \<open>raised_in\<close> is the first error raised while the statement runs, whether or not
  something catches it afterwards. An error propagates uncaught out of a cell when
  the outcome of the cell is that first error.
\<close>

fun raised_in :: "env \<Rightarrow> stmt \<Rightarrow> string option"
and raised_in_block :: "env \<Rightarrow> stmt list \<Rightarrow> string option" where
  "raised_in env (Import m a) = import_raises env m"
| "raised_in env (Assign x e) = first_raise env e"
| "raised_in env (Expr e) = first_raise env e"
| "raised_in env (With e x ss) = then_raise (first_raise env e) (raised_in_block env ss)"
| "raised_in env (ShellEscape c) = None"
| "raised_in env (FunctionDef f xs ss) = None"
| "raised_in env (ClassDef c ss) = raised_in_block env ss"
| "raised_in env (For x e ss) =
     then_raise (first_raise env e)
       (if iterations env e = 0 then None else raised_in_block env ss)"
| "raised_in env (While e ss) =
     then_raise (first_raise env e)
       (if iterations env e = 0 then None else raised_in_block env ss)"
| "raised_in env (IfStmt e ss ts) =
     then_raise (first_raise env e)
       (if truthy env e then raised_in_block env ss else raised_in_block env ts)"
| "raised_in env (Try ss hs) = raised_in_block env ss"
| "raised_in_block env [] = None"
| "raised_in_block env (s # ss) = then_raise (raised_in env s) (raised_in_block env ss)"

definition propagates :: "env \<Rightarrow> module \<Rightarrow> bool" where
  "propagates env m = (exec_block env (body m) = outcome_of (raised_in_block env (body m)))"

text \<open>
  Two runs to compare. In the first, \<^verbatim>\<open>data_source.yaml()\<close> raises and every manager
  other than a file would drop the error. In the second the manager is
  \<^verbatim>\<open>contextlib.suppress(Exception)\<close>.
\<close>

definition yaml_fails :: env where
  "yaml_fails =
     \<lparr>raises = (\<lambda>e. if e = invoke (Name ''data_source'') ''yaml'' [] []
                      then Some ''ValueError'' else None),
      import_raises = (\<lambda>m. None),
      exit_swallows = (\<lambda>e. True),
      truthy = (\<lambda>e. True),
      iterations = (\<lambda>e. 1)\<rparr>"

definition suppress_block :: module where
  "suppress_block =
     Module [With (invoke (Name ''contextlib'') ''suppress'' [Name ''Exception''] []) None
               [Expr (invoke (Name ''f'') ''write''
                        [invoke (Name ''data_source'') ''yaml'' [] []] [])]]"

subsection \<open>What the cells make\<close>



fun subexprs :: "expr \<Rightarrow> expr list"
and kw_subexprs :: "keyword \<Rightarrow> expr list" where
  "subexprs (Name x) = [Name x]"
| "subexprs (Constant c) = [Constant c]"
| "subexprs (Attribute e a) = Attribute e a # subexprs e"
| "subexprs (Call f args kws) =
     Call f args kws # subexprs f @ concat (map subexprs args) @ concat (map kw_subexprs kws)"
| "subexprs (ListE es) = ListE es # concat (map subexprs es)"
| "subexprs (DictE ks vs) =
     DictE ks vs # concat (map subexprs ks) @ concat (map subexprs vs)"
| "subexprs (Subscript e i) = Subscript e i # subexprs e @ subexprs i"
| "kw_subexprs (Keyword k v) = subexprs v"









section \<open>The trees are those of the code cells\<close>

lemma distributing_data_code_source:
  "map squash (code_sources distributing_data) = map show_module distributing_data_code"
  by code_simp

lemma ingesting_data_code_source:
  "map squash (code_sources ingesting_data) = map show_module ingesting_data_code"
  by code_simp



lemma no_logic_in_notebooks: "\<not> list_ex authored_logic notebook_statements"
  by code_simp


lemma notebook_statement_shapes: "list_all notebook_stmt notebook_statements"
  by code_simp

lemma notebook_module_shapes:
  "list_all (\<lambda>m. list_all notebook_stmt (body m)) notebook_modules"
  by code_simp

section \<open>Errors leave a cell of these shapes\<close>

lemma outcome_of_then_raise:
  "outcome_of (then_raise r q) = (case r of Some e \<Rightarrow> Raised e | None \<Rightarrow> outcome_of q)"
  by (cases r) simp_all

lemma call_stmt_propagates:
  assumes "is_call_stmt s"
  shows "exec env s = outcome_of (raised_in env s)"
  using assms by (cases s) simp_all

lemma call_block_propagates:
  assumes "list_all is_call_stmt ss"
  shows "exec_block env ss = outcome_of (raised_in_block env ss)"
  using assms
proof (induction ss)
  case Nil
  show ?case by simp
next
  case (Cons s ss)
  then have "exec env s = outcome_of (raised_in env s)"
    and "exec_block env ss = outcome_of (raised_in_block env ss)"
    by (simp_all add: call_stmt_propagates)
  then show ?case
    by (cases "raised_in env s") (simp_all add: outcome_of_then_raise)
qed

lemma open_never_swallows:
  assumes "calls_open e"
  shows "\<not> swallows env e"
  using assms by (induction e rule: calls_open.induct) simp_all

lemma notebook_stmt_propagates:
  assumes "notebook_stmt s"
  shows "exec env s = outcome_of (raised_in env s)"
proof (cases s)
  case (With e x ss)
  with assms have opn: "calls_open e" and calls: "list_all is_call_stmt ss"
    by simp_all
  have blk: "exec_block env ss = outcome_of (raised_in_block env ss)"
    using calls by (rule call_block_propagates)
  have quiet: "\<not> swallows env e"
    using opn by (rule open_never_swallows)
  show ?thesis
  proof (cases "first_raise env e")
    case None
    then show ?thesis
      using With blk quiet by (cases "raised_in_block env ss") simp_all
  next
    case (Some err)
    then show ?thesis
      using With by simp
  qed
qed (use assms in simp_all)

lemma notebook_block_propagates:
  assumes "list_all notebook_stmt ss"
  shows "exec_block env ss = outcome_of (raised_in_block env ss)"
  using assms
proof (induction ss)
  case Nil
  show ?case by simp
next
  case (Cons s ss)
  then have "exec env s = outcome_of (raised_in env s)"
    and "exec_block env ss = outcome_of (raised_in_block env ss)"
    by (simp_all add: notebook_stmt_propagates)
  then show ?case
    by (cases "raised_in env s") (simp_all add: outcome_of_then_raise)
qed

lemma shaped_modules_propagate:
  assumes "list_all (\<lambda>m. list_all notebook_stmt (body m)) ms"
  shows "list_all (propagates env) ms"
  using assms
  by (induction ms) (simp_all add: propagates_def notebook_block_propagates)

lemma write_catalog_cell_raises:
  "raised_in_block yaml_fails (body (distributing_data_code ! 5)) = Some ''ValueError''
   \<and> exec_block yaml_fails (body (distributing_data_code ! 5)) = Raised ''ValueError''"
  by code_simp

lemma suppress_block_swallows:
  "raised_in_block yaml_fails (body suppress_block) = Some ''ValueError''
   \<and> exec_block yaml_fails (body suppress_block) = Completed
   \<and> \<not> propagates yaml_fails suppress_block
   \<and> \<not> list_all notebook_stmt (body suppress_block)"
  by code_simp

section \<open>Claims\<close>

text \<open>
  C4, as stated: no code cell defines a function, a class, a loop, a conditional or an
  exception handler, and every statement is an import, an assignment or a direct call.
  The second half fails. The sixth code cell of \<^verbatim>\<open>distributing_data.ipynb\<close> is
  \<^verbatim>\<open>with open('my_catalog.yml', 'w') as f: f.write(data_source.yaml())\<close>, a compound
  \<^verbatim>\<open>with\<close> statement, which is none of the three.
\<close>

theorem with_statement_counterexample:
  "body (distributing_data_code ! 5) =
     [With (Call (Name ''open'') [str ''my_catalog.yml'', str ''w''] []) (Some ''f'')
        [Expr (invoke (Name ''f'') ''write'' [invoke (Name ''data_source'') ''yaml'' [] []] [])]]
   \<and> \<not> list_all import_assign_or_call (body (distributing_data_code ! 5))"
  by code_simp

text \<open>
  C4, amended: the syntax trees are those of the code cells of the two notebooks; no
  statement in them defines a function, a class, a loop, a conditional or an exception
  handler; every statement is an import, an assignment, an expression statement that is
  a call, a bare name or an attribute, a block \<^verbatim>\<open>with open(...) as f:\<close> holding only
  calls, or an IPython shell escape; so in every run of every cell the first error
  raised is the outcome of the cell: it propagates uncaught. The cell of the
  counterexample is an instance: when \<^verbatim>\<open>data_source.yaml()\<close> raises inside the block,
  the error leaves the cell.
\<close>

theorem no_failure_handling_authored:
  "map squash (code_sources distributing_data) = map show_module distributing_data_code
   \<and> map squash (code_sources ingesting_data) = map show_module ingesting_data_code
   \<and> \<not> list_ex authored_logic notebook_statements
   \<and> list_all notebook_stmt notebook_statements
   \<and> list_all (propagates env) notebook_modules
   \<and> exec_block yaml_fails (body (distributing_data_code ! 5)) = Raised ''ValueError''"
  using distributing_data_code_source ingesting_data_code_source
    no_logic_in_notebooks notebook_statement_shapes
    shaped_modules_propagate [OF notebook_module_shapes, of env]
    write_catalog_cell_raises
  by simp



text \<open>
  C7: the code cells that leave Python for the shell are exactly two cells of
  \<^verbatim>\<open>distributing_data.ipynb\<close>, each a single line that runs conda:
  \<^verbatim>\<open>!conda install conda-build --yes --quiet\<close> and
  \<^verbatim>\<open>!conda build conda.recipe --output-folder built --quiet\<close>.
  \<^verbatim>\<open>ingesting_data.ipynb\<close> has none.
\<close>

theorem only_conda_shell_escapes:
  "escaping_cells distributing_data =
     map (\<lambda>l. [l])
       [''!conda install conda-build --yes --quiet'',
        ''!conda build conda.recipe --output-folder built --quiet'']
   \<and> escaping_cells ingesting_data = []"
  by code_simp

section \<open>What the notebooks leave to the libraries\<close>

text \<open>
  What \<^verbatim>\<open>intake.open_csv\<close>, \<^verbatim>\<open>yaml\<close>, \<^verbatim>\<open>intake.open_catalog\<close>, \<^verbatim>\<open>read\<close>,
  \<^verbatim>\<open>intake.cat\<close> and \<^verbatim>\<open>pd.read_csv\<close> compute is decided inside Intake and pandas.
  Neither library is part of the repository, and the notebooks only call them, so the
  development above stops at the syntax of the calls and at where their errors go.
\<close>

end
